theory Spec2Isabelle
  imports Complex_Main "HOL-Library.Multiset"
begin

chapter \<open>The note-retrieval backend: chunker, embedding client, vector store, retriever\<close>

section \<open>Python strings\<close>

text \<open>
  A Python \<open>str\<close> is a sequence of Unicode code points and \<open>len\<close> counts code points,
  so a text is a list of code points (natural numbers), not a list of bytes.
\<close>

type_synonym ustring = "nat list"

text \<open>\<open>str.isspace\<close> on one character; the regular expression class \<open>\s\<close> is the same set.\<close>

definition py_isspace :: "nat \<Rightarrow> bool" where
  "py_isspace c \<longleftrightarrow>
     (9 \<le> c \<and> c \<le> 13) \<or> (28 \<le> c \<and> c \<le> 32) \<or> c = 133 \<or> c = 160 \<or> c = 5760 \<or>
     (8192 \<le> c \<and> c \<le> 8202) \<or> c = 8232 \<or> c = 8233 \<or> c = 8239 \<or> c = 8287 \<or> c = 12288"

definition py_strip :: "ustring \<Rightarrow> ustring" where
  "py_strip s = rev (dropWhile py_isspace (rev (dropWhile py_isspace s)))"

definition py_isascii :: "ustring \<Rightarrow> bool" where
  "py_isascii s \<longleftrightarrow> list_all (\<lambda>c. c < 128) s"

text \<open>
  A slice bound: a negative bound counts from the end, and the result is clamped to
  \<open>[0, len]\<close>.
\<close>

definition py_index :: "nat \<Rightarrow> int \<Rightarrow> nat" where
  "py_index n i = (if i < 0 then nat (max 0 (int n + i)) else min n (nat i))"

definition py_slice :: "'a list \<Rightarrow> int \<Rightarrow> int \<Rightarrow> 'a list" where
  "py_slice s i j =
     (let b = py_index (length s) i; e = py_index (length s) j
      in take (e - b) (drop b s))"

text \<open>
  \<open>s.rfind(sub, start, end)\<close>: the highest index \<open>k\<close> with \<open>start \<le> k\<close> and
  \<open>k + len(sub) \<le> end\<close> at which \<open>sub\<close> occurs, or \<open>-1\<close>. The end bound is adjusted like a
  slice bound; the start bound is only lifted when negative.
\<close>

definition py_rfind :: "'a list \<Rightarrow> 'a list \<Rightarrow> int \<Rightarrow> int \<Rightarrow> int" where
  "py_rfind s sub i j =
     (let n = int (length s);
          e = (if j > n then n else if j < 0 then max 0 (j + n) else j);
          b = (if i < 0 then max 0 (i + n) else i);
          hits = filter (\<lambda>k. take (length sub) (drop (nat k) s) = sub) [b..e - int (length sub)]
      in if hits = [] then - 1 else last hits)"

text \<open>\<open>sub in s\<close> for strings: \<open>sub\<close> occurs somewhere in \<open>s\<close>.\<close>

definition py_contains :: "'a list \<Rightarrow> 'a list \<Rightarrow> bool" where
  "py_contains s sub \<longleftrightarrow>
     list_ex (\<lambda>k. take (length sub) (drop k s) = sub) [0..<Suc (length s)]"

text \<open>
  \<open>s.split('\n\n')\<close>: the pieces between the non-overlapping occurrences of two line feeds,
  scanned from the left. The first argument is the piece being read.
\<close>

fun split_blank_lines :: "ustring \<Rightarrow> ustring \<Rightarrow> ustring list" where
  "split_blank_lines cur [] = [cur]"
| "split_blank_lines cur (a # b # xs) =
     (if a = 10 \<and> b = 10 then cur # split_blank_lines [] xs
      else split_blank_lines (cur @ [a]) (b # xs))"
| "split_blank_lines cur [a] = [cur @ [a]]"

text \<open>
  \<open>re.split(r'[...]+', s)\<close> for a character class: the pieces between the maximal runs of
  separator characters; a run at either end leaves an empty piece there. The flag says
  that the scan is inside a run, the list after it is the piece being read.
\<close>

fun re_split :: "(nat \<Rightarrow> bool) \<Rightarrow> bool \<Rightarrow> ustring \<Rightarrow> ustring \<Rightarrow> ustring list" where
  "re_split sep in_run cur [] = [cur]"
| "re_split sep in_run cur (x # xs) =
     (if sep x then
        (if in_run then re_split sep True [] xs else cur # re_split sep True [] xs)
      else re_split sep False (cur @ [x]) xs)"

section \<open>Markdown parser: chunking\<close>

text \<open>A chunk is the triple \<open>(chunk_text, start_pos, end_pos)\<close>.\<close>

type_synonym chunk = "ustring \<times> int \<times> int"

text \<open>
  The delimiters of \<open>_split_large_text\<close> in the order the source lists them: the
  ideographic full stop, the fullwidth exclamation and question marks, two line feeds,
  and the ASCII full stop, exclamation mark and question mark.
\<close>

definition delimiters :: "ustring list" where
  "delimiters = [[12290], [65281], [65311], [10, 10], [46], [33], [63]]"

text \<open>
  The loop over the delimiters: \<open>best_pos\<close> starts at \<open>-1\<close> and is replaced by every
  position that is greater.
\<close>

definition find_best_pos :: "ustring \<Rightarrow> int \<Rightarrow> int \<Rightarrow> int" where
  "find_best_pos text search_start search_end =
     fold (\<lambda>delimiter best_pos.
             let pos = py_rfind text delimiter search_start search_end
             in if pos > best_pos then pos else best_pos)
          delimiters (- 1)"

text \<open>The end of the chunk that starts at \<open>start\<close> (the first half of the loop body).\<close>

definition chunk_end :: "ustring \<Rightarrow> int \<Rightarrow> int \<Rightarrow> int \<Rightarrow> int" where
  "chunk_end text start chunk_size min_chunk_size =
     (let text_len = int (length text);
          ideal_end = min (start + chunk_size) text_len
      in if ideal_end \<ge> text_len then text_len
         else
           let search_start = max (start + min_chunk_size) (ideal_end - 200);
               search_end = ideal_end;
               best_pos = find_best_pos text search_start search_end
           in if best_pos \<noteq> - 1 then best_pos + 1
              else
                let space_pos = py_rfind text [32] search_start search_end
                in if space_pos \<noteq> - 1 then space_pos + 1 else ideal_end)"

text \<open>
  One pass through the body of the \<open>while\<close> loop, entered with \<open>start < len(text)\<close>:
  either the loop is left through \<open>break\<close> with the chunks so far, or it goes round again
  with a new start.
\<close>

datatype split_step = Break "chunk list" | Continue int "chunk list"

definition split_body ::
  "ustring \<Rightarrow> int \<Rightarrow> int \<Rightarrow> int \<Rightarrow> int \<Rightarrow> int \<Rightarrow> chunk list \<Rightarrow> split_step" where
  "split_body text start_offset chunk_size overlap min_chunk_size start chunks =
     (let text_len = int (length text);
          end_pos = chunk_end text start chunk_size min_chunk_size;
          chunk_text = py_strip (py_slice text start end_pos);
          chunks' = (if int (length chunk_text) \<ge> min_chunk_size
                     then chunks @ [(chunk_text, start_offset + start, start_offset + end_pos)]
                     else chunks);
          start1 = end_pos - overlap;
          start2 = (if start1 \<le> (if chunks' \<noteq> [] then fst (snd (last chunks')) - start_offset
                                  else - 1)
                    then end_pos else start1)
      in if text_len - start2 < min_chunk_size then Break chunks' else Continue start2 chunks')"

text \<open>
  The \<open>while\<close> loop. Nothing in the source bounds the number of passes, so the model
  counts them: \<open>None\<close> means that the passes allowed were not enough.
\<close>

fun split_loop ::
  "nat \<Rightarrow> ustring \<Rightarrow> int \<Rightarrow> int \<Rightarrow> int \<Rightarrow> int \<Rightarrow> int \<Rightarrow> chunk list \<Rightarrow> chunk list option" where
  "split_loop 0 text start_offset chunk_size overlap min_chunk_size start chunks =
     (if start < int (length text) then None else Some chunks)"
| "split_loop (Suc fuel) text start_offset chunk_size overlap min_chunk_size start chunks =
     (if start < int (length text) then
        (case split_body text start_offset chunk_size overlap min_chunk_size start chunks of
           Break chunks' \<Rightarrow> Some chunks'
         | Continue start' chunks' \<Rightarrow>
             split_loop fuel text start_offset chunk_size overlap min_chunk_size start' chunks')
      else Some chunks)"

definition split_large_text ::
  "nat \<Rightarrow> ustring \<Rightarrow> int \<Rightarrow> int \<Rightarrow> int \<Rightarrow> int \<Rightarrow> chunk list option" where
  "split_large_text fuel text start_offset chunk_size overlap min_chunk_size =
     split_loop fuel text start_offset chunk_size overlap min_chunk_size 0 []"

text \<open>
  The block that \<open>chunk_content\<close> runs on an accumulated text that is long enough, once
  inside the paragraph loop and once after it: a text longer than one and a half chunk
  sizes goes to the splitter, any other becomes one chunk. The source compares
  \<open>len(text) > chunk_size * 1.5\<close>; on integers that is \<open>2 * len(text) > 3 * chunk_size\<close>.
\<close>

definition emit_accumulated ::
  "nat \<Rightarrow> int \<Rightarrow> int \<Rightarrow> int \<Rightarrow> ustring \<Rightarrow> int \<Rightarrow> chunk list \<Rightarrow> chunk list option" where
  "emit_accumulated fuel chunk_size overlap min_chunk_size accumulated_text accumulated_start chunks =
     (if 2 * int (length accumulated_text) > 3 * chunk_size then
        (case split_large_text fuel accumulated_text accumulated_start
                chunk_size overlap min_chunk_size of
           None \<Rightarrow> None
         | Some sub_chunks \<Rightarrow> Some (chunks @ sub_chunks))
      else Some (chunks @ [(accumulated_text, accumulated_start,
                            accumulated_start + int (length accumulated_text))]))"

text \<open>The state of the paragraph loop of \<open>chunk_content\<close>.\<close>

record para_state =
  ps_current_pos :: int
  ps_accumulated_text :: ustring
  ps_accumulated_start :: int
  ps_chunks :: "chunk list"

fun para_loop ::
  "nat \<Rightarrow> int \<Rightarrow> int \<Rightarrow> int \<Rightarrow> ustring list \<Rightarrow> para_state \<Rightarrow> para_state option" where
  "para_loop fuel chunk_size overlap min_chunk_size [] st = Some st"
| "para_loop fuel chunk_size overlap min_chunk_size (p # ps) st =
     (let paragraph = py_strip p in
      if paragraph = [] then
        para_loop fuel chunk_size overlap min_chunk_size ps
          (st\<lparr>ps_current_pos := ps_current_pos st + 2\<rparr>)
      else if ps_accumulated_text st = [] then
        para_loop fuel chunk_size overlap min_chunk_size ps
          (st\<lparr>ps_accumulated_text := paragraph, ps_accumulated_start := ps_current_pos st,
               ps_current_pos := ps_current_pos st + int (length paragraph) + 2\<rparr>)
      else
        let test_text = ps_accumulated_text st @ [10, 10] @ paragraph in
        if int (length test_text) > chunk_size then
          (case (if int (length (ps_accumulated_text st)) \<ge> min_chunk_size
                 then emit_accumulated fuel chunk_size overlap min_chunk_size
                        (ps_accumulated_text st) (ps_accumulated_start st) (ps_chunks st)
                 else Some (ps_chunks st)) of
             None \<Rightarrow> None
           | Some chunks' \<Rightarrow>
               para_loop fuel chunk_size overlap min_chunk_size ps
                 (st\<lparr>ps_chunks := chunks', ps_accumulated_text := paragraph,
                      ps_accumulated_start := ps_current_pos st,
                      ps_current_pos := ps_current_pos st + int (length paragraph) + 2\<rparr>))
        else
          para_loop fuel chunk_size overlap min_chunk_size ps
            (st\<lparr>ps_accumulated_text := test_text,
                 ps_current_pos := ps_current_pos st + int (length paragraph) + 2\<rparr>))"

text \<open>
  \<open>MarkdownParser.chunk_content\<close>. The first argument bounds the passes of each run of
  the sentence splitter.
\<close>

definition chunk_content ::
  "nat \<Rightarrow> ustring \<Rightarrow> int \<Rightarrow> int \<Rightarrow> int \<Rightarrow> chunk list option" where
  "chunk_content fuel content chunk_size overlap min_chunk_size =
     (if int (length content) < chunk_size then
        (if py_strip content \<noteq> [] then Some [(content, 0, int (length content))]
         else Some [])
      else
        (case para_loop fuel chunk_size overlap min_chunk_size (split_blank_lines [] content)
                \<lparr>ps_current_pos = 0, ps_accumulated_text = [], ps_accumulated_start = 0, ps_chunks = []\<rparr> of
           None \<Rightarrow> None
         | Some st \<Rightarrow>
             if ps_accumulated_text st \<noteq> [] \<and> int (length (ps_accumulated_text st)) \<ge> min_chunk_size
             then emit_accumulated fuel chunk_size overlap min_chunk_size
                    (ps_accumulated_text st) (ps_accumulated_start st) (ps_chunks st)
             else Some (ps_chunks st)))"

section \<open>Embedding cache\<close>

text \<open>
  An embedding is a list of numbers; the floating-point values of the source are read as
  reals. The cache table has the primary key \<open>(content_hash, model)\<close>, so it is a map
  from such pairs. \<open>_compute_hash\<close> is SHA-256 from the standard library: it enters
  every operation as the parameter \<open>compute_hash\<close>. The JSON text stored in the table is
  read back to the list that was written, so the map holds the lists themselves.
\<close>

type_synonym embedding = "real list"

type_synonym 'h cache = "'h \<times> string \<rightharpoonup> embedding"

definition get_batch ::
  "(ustring \<Rightarrow> 'h) \<Rightarrow> 'h cache \<Rightarrow> ustring list \<Rightarrow> string \<Rightarrow> embedding option list" where
  "get_batch compute_hash cache texts model =
     (let hashes = map compute_hash texts in map (\<lambda>h. cache (h, model)) hashes)"

text \<open>\<open>INSERT OR REPLACE\<close>, one row after the other: the last write to a key wins.\<close>

definition set_batch ::
  "(ustring \<Rightarrow> 'h) \<Rightarrow> 'h cache \<Rightarrow> ustring list \<Rightarrow> string \<Rightarrow> embedding list \<Rightarrow> 'h cache" where
  "set_batch compute_hash cache texts model embeddings =
     fold (\<lambda>(text, emb) c. c((compute_hash text, model) \<mapsto> emb)) (zip texts embeddings) cache"

section \<open>Embedding client\<close>

datatype error =
    HTTPStatusError nat
  | TimeoutException
  | OtherException
  | RuntimeError
  | IndexError
  | ValueError
  | AttributeError
  | AssertionError
  | FileNotFoundError

text \<open>
  What one POST to \<open>/v1/embeddings\<close> comes back with: a body whose \<open>data\<close> entries are
  pairs of \<open>index\<close> and \<open>embedding\<close>, a status that \<open>raise_for_status\<close> rejects, a
  timeout, or any other exception of the attempt (a body without the expected keys
  included). The remote service is a function of the number of requests sent before and
  of the input posted.
\<close>

datatype response =
    Ok "(int \<times> embedding) list"
  | HttpError nat
  | TimedOut
  | Failed

type_synonym server = "nat \<Rightarrow> ustring list \<Rightarrow> response"

text \<open>
  The state of an \<open>EmbedderService\<close>: its cache, the flag that the cache was opened,
  and the inputs of the requests sent so far, oldest first. The waits between attempts
  change none of this and are left out.
\<close>

record 'h embedder =
  cache :: "'h cache"
  cache_initialized :: bool
  requests :: "ustring list list"

text \<open>
  The attempts of \<open>_embed_batch\<close>; the third argument is the number of attempts left,
  so \<open>attempt == max_retries - 1\<close> reads \<open>left = 0\<close> after the attempt. A 429 never
  raises by itself: after the last attempt the loop ends and \<open>RuntimeError\<close> is raised.
\<close>

fun embed_batch_attempts ::
  "server \<Rightarrow> ustring list \<Rightarrow> nat \<Rightarrow> ustring list list
   \<Rightarrow> (error + embedding list) \<times> ustring list list" where
  "embed_batch_attempts srv texts 0 reqs = (Inl RuntimeError, reqs)"
| "embed_batch_attempts srv texts (Suc left) reqs =
     (let reqs' = reqs @ [texts] in
      case srv (length reqs) texts of
        Ok data \<Rightarrow> (Inr (map snd (sort_key fst data)), reqs')
      | HttpError code \<Rightarrow>
          if code = 429 then embed_batch_attempts srv texts left reqs'
          else if left = 0 then (Inl (HTTPStatusError code), reqs')
          else embed_batch_attempts srv texts left reqs'
      | TimedOut \<Rightarrow>
          if left = 0 then (Inl TimeoutException, reqs')
          else embed_batch_attempts srv texts left reqs'
      | Failed \<Rightarrow>
          if left = 0 then (Inl OtherException, reqs')
          else embed_batch_attempts srv texts left reqs')"

definition embed_batch ::
  "server \<Rightarrow> ustring list \<Rightarrow> ustring list list \<Rightarrow> (error + embedding list) \<times> ustring list list" where
  "embed_batch srv texts reqs = embed_batch_attempts srv texts 3 reqs"

text \<open>
  Step 6 of \<open>_embed_batch_with_cache\<close>: a copy of the cached list in which the
  \<open>i\<close>-th missing position receives the \<open>i\<close>-th new vector.
\<close>

definition stitch ::
  "embedding option list \<Rightarrow> nat list \<Rightarrow> embedding list \<Rightarrow> embedding option list" where
  "stitch cached_embeddings uncached_indices new_embeddings =
     fold (\<lambda>(i, idx) result. result[idx := Some (new_embeddings ! i)])
          (zip [0..<length uncached_indices] uncached_indices) cached_embeddings"

text \<open>
  \<open>_embed_batch_with_cache\<close>. Reading \<open>new_embeddings[i]\<close> beyond the end of a short answer
  raises \<open>IndexError\<close>, after the cache was written.
\<close>

definition embed_batch_with_cache ::
  "server \<Rightarrow> (ustring \<Rightarrow> 'h) \<Rightarrow> string \<Rightarrow> ustring list \<Rightarrow> 'h embedder
   \<Rightarrow> (error + embedding option list) \<times> 'h embedder" where
  "embed_batch_with_cache srv compute_hash model texts st =
     (let cached_embeddings = get_batch compute_hash (cache st) texts model;
          uncached_indices =
            filter (\<lambda>i. cached_embeddings ! i = None) [0..<length cached_embeddings];
          uncached_texts = map (\<lambda>i. texts ! i) uncached_indices
      in if uncached_texts = [] then (Inr cached_embeddings, st)
         else
           case embed_batch srv uncached_texts (requests st) of
             (Inl e, reqs) \<Rightarrow> (Inl e, st\<lparr>requests := reqs\<rparr>)
           | (Inr new_embeddings, reqs) \<Rightarrow>
               let st' = st\<lparr>requests := reqs,
                             cache := set_batch compute_hash (cache st) uncached_texts model
                                        new_embeddings\<rparr>
               in if length new_embeddings < length uncached_indices then (Inl IndexError, st')
                  else (Inr (stitch cached_embeddings uncached_indices new_embeddings), st'))"

text \<open>
  \<open>[texts[i:i + batch_size] for i in range(0, len(texts), batch_size)]\<close>; a negative step
  gives an empty range, and a step of zero is rejected by \<open>embed_texts\<close> below.
\<close>

definition batches :: "int \<Rightarrow> 'a list \<Rightarrow> 'a list list" where
  "batches batch_size texts =
     (if batch_size \<le> 0 then []
      else let b = nat batch_size
           in map (\<lambda>k. take b (drop (k * b) texts)) [0..<(length texts + b - 1) div b])"

text \<open>
  The slice tasks run concurrently under a semaphore and are collected as they complete.
  The model runs them one after the other in the order \<open>order\<close>, a list of slice numbers
  chosen by the scheduler, and records each result with its slice number in that order.
  Each task runs here without interruption; in the source tasks may also alternate at
  their suspension points, which changes what a task finds in the cache but not the way
  the results are put together. A task that raises ends the call.
\<close>

fun run_tasks ::
  "server \<Rightarrow> (ustring \<Rightarrow> 'h) \<Rightarrow> string \<Rightarrow> ustring list list \<Rightarrow> nat list \<Rightarrow> 'h embedder
   \<Rightarrow> (error + (nat \<times> embedding option list) list) \<times> 'h embedder" where
  "run_tasks srv compute_hash model bs [] st = (Inr [], st)"
| "run_tasks srv compute_hash model bs (batch_idx # order) st =
     (case embed_batch_with_cache srv compute_hash model (bs ! batch_idx) st of
        (Inl e, st') \<Rightarrow> (Inl e, st')
      | (Inr embeddings, st') \<Rightarrow>
          (case run_tasks srv compute_hash model bs order st' of
             (Inl e, st'') \<Rightarrow> (Inl e, st'')
           | (Inr results, st'') \<Rightarrow> (Inr ((batch_idx, embeddings) # results), st'')))"

text \<open>
  \<open>embed_texts\<close>: the results are sorted by slice number and flattened. \<open>order\<close> is a
  permutation of the slice numbers.
\<close>

definition embed_texts ::
  "server \<Rightarrow> (ustring \<Rightarrow> 'h) \<Rightarrow> string \<Rightarrow> int \<Rightarrow> nat list \<Rightarrow> ustring list \<Rightarrow> 'h embedder
   \<Rightarrow> (error + embedding option list) \<times> 'h embedder" where
  "embed_texts srv compute_hash model batch_size order texts st =
     (let st0 = st\<lparr>cache_initialized := True\<rparr> in
      if batch_size = 0 then (Inl ValueError, st0)
      else
        case run_tasks srv compute_hash model (batches batch_size texts) order st0 of
          (Inl e, st') \<Rightarrow> (Inl e, st')
        | (Inr results, st') \<Rightarrow> (Inr (concat (map snd (sort_key fst results))), st'))"

text \<open>\<open>embed_query\<close>: one text, hence at most one slice, and the first vector of the answer.\<close>

definition embed_query ::
  "server \<Rightarrow> (ustring \<Rightarrow> 'h) \<Rightarrow> string \<Rightarrow> int \<Rightarrow> ustring \<Rightarrow> 'h embedder
   \<Rightarrow> (error + embedding option) \<times> 'h embedder" where
  "embed_query srv compute_hash model batch_size query st =
     (case embed_texts srv compute_hash model batch_size
             [0..<length (batches batch_size [query])] [query] st of
        (Inl e, st') \<Rightarrow> (Inl e, st')
      | (Inr embeddings, st') \<Rightarrow>
          (case embeddings of [] \<Rightarrow> (Inl IndexError, st') | v # _ \<Rightarrow> (Inr v, st')))"

section \<open>Vector store\<close>

text \<open>
  The FAISS index is the list of the vectors added to it, in insertion order; \<open>ntotal\<close>
  is its length. \<open>index = None\<close> is the store before \<open>create_index\<close> or \<open>load\<close>.
\<close>

record vector_store =
  dimension :: nat
  index :: "embedding list option"
  chunk_ids :: "string list"

definition ntotal :: "vector_store \<Rightarrow> nat" where
  "ntotal vs = (case index vs of None \<Rightarrow> 0 | Some ix \<Rightarrow> length ix)"

text \<open>The fields of \<open>DocumentChunk\<close>; times are microseconds since the epoch.\<close>

record document_chunk =
  dc_chunk_id :: string
  dc_document_id :: string
  dc_content :: ustring
  dc_chunk_index :: int
  dc_start_pos :: int
  dc_end_pos :: int
  dc_embedding :: "embedding option"
  dc_file_path :: ustring
  dc_title :: ustring
  dc_tags :: "ustring list"
  dc_backlinks :: "ustring list"
  dc_created_at :: "int option"
  dc_modified_at :: "int option"

definition create_index :: "vector_store \<Rightarrow> vector_store" where
  "create_index vs = vs\<lparr>index := Some [], chunk_ids := []\<rparr>"

text \<open>\<open>faiss.normalize_L2\<close> on one row: a row of norm zero is left as it is.\<close>

definition normalize_L2 :: "embedding \<Rightarrow> embedding" where
  "normalize_L2 v =
     (let nr = (\<Sum>x\<leftarrow>v. x * x) in if nr > 0 then map (\<lambda>x. x / sqrt nr) v else v)"

text \<open>
  \<open>add_vectors\<close>. Building the array fails when a chunk has no embedding or the rows
  differ in length (written \<open>ValueError\<close>, whichever exception numpy raises); \<open>index.add\<close>
  fails on a store without index and on rows of the wrong dimension. On every failure the
  store is as it was, since the mapping is extended after the index.
\<close>

definition add_vectors :: "vector_store \<Rightarrow> document_chunk list \<Rightarrow> error + vector_store" where
  "add_vectors vs chunks =
     (if chunks = [] then Inr vs
      else if (\<exists>c \<in> set chunks. dc_embedding c = None)
              \<or> (\<exists>c \<in> set chunks. \<exists>c' \<in> set chunks.
                    length (the (dc_embedding c)) \<noteq> length (the (dc_embedding c')))
      then Inl ValueError
      else
        let vectors = map (\<lambda>chunk. normalize_L2 (the (dc_embedding chunk))) chunks in
        case index vs of
          None \<Rightarrow> Inl AttributeError
        | Some ix \<Rightarrow>
            if \<exists>v \<in> set vectors. length v \<noteq> dimension vs then Inl AssertionError
            else Inr (vs\<lparr>index := Some (ix @ vectors),
                         chunk_ids := chunk_ids vs @ map dc_chunk_id chunks\<rparr>))"

definition inner_product :: "embedding \<Rightarrow> embedding \<Rightarrow> real" where
  "inner_product v w = (\<Sum>(x, y)\<leftarrow>zip v w. x * y)"

text \<open>
  \<open>index.search(query, k)\<close> of a flat inner-product index: the \<open>k\<close> best scores with
  their positions, best first. FAISS does not say which of two equal scores comes first;
  here the earlier vector does.
\<close>

definition faiss_search :: "embedding list \<Rightarrow> embedding \<Rightarrow> nat \<Rightarrow> (real \<times> int) list" where
  "faiss_search ix query k =
     take k (sort_key (\<lambda>(score, idx). - score)
               (map (\<lambda>i. (inner_product query (ix ! i), int i)) [0..<length ix]))"

definition search ::
  "vector_store \<Rightarrow> embedding option \<Rightarrow> int \<Rightarrow> error + (string \<times> real) list" where
  "search vs query_vector top_k =
     (case index vs of
        None \<Rightarrow> Inr []
      | Some ix \<Rightarrow>
          if length ix = 0 then Inr []
          else
            (case query_vector of
               None \<Rightarrow> Inl ValueError
             | Some qv \<Rightarrow>
                 let query = normalize_L2 qv;
                     k = min top_k (int (length ix))
                 in if length qv \<noteq> dimension vs \<or> k \<le> 0 then Inl AssertionError
                    else
                      Inr (map (\<lambda>(score, idx). (chunk_ids vs ! nat idx, score))
                             (filter (\<lambda>(score, idx). idx \<noteq> - 1 \<and> idx < int (length (chunk_ids vs)))
                                (faiss_search ix query (nat k))))))"

text \<open>
  The two files on disk: the index file and, beside it, the pickled list of chunk ids.
  \<open>load\<close> gives back \<open>False\<close> when there is no index file; when only the mapping is
  missing, \<open>open\<close> raises after the index was already replaced.
\<close>

record disk =
  index_file :: "embedding list option"
  mapping_file :: "string list option"

definition load :: "disk \<Rightarrow> vector_store \<Rightarrow> (error + bool) \<times> vector_store" where
  "load d vs =
     (case index_file d of
        None \<Rightarrow> (Inr False, vs)
      | Some ix \<Rightarrow>
          (case mapping_file d of
             None \<Rightarrow> (Inl FileNotFoundError, vs\<lparr>index := Some ix\<rparr>)
           | Some ids \<Rightarrow> (Inr True, vs\<lparr>index := Some ix, chunk_ids := ids\<rparr>)))"

section \<open>Indexer: loading the index\<close>

record indexer =
  vector_store :: vector_store
  initialized :: bool

text \<open>
  \<open>load_index\<close> returns nothing; what it does with the answer of \<open>load\<close> is to log one of
  two lines, an information or an error. The model returns the line logged.
\<close>

datatype log_line = Info_index_loaded | Error_index_load_failed

definition load_index :: "disk \<Rightarrow> indexer \<Rightarrow> (error + log_line) \<times> indexer" where
  "load_index d ixr =
     (case load d (vector_store ixr) of
        (Inl e, vs') \<Rightarrow> (Inl e, ixr\<lparr>vector_store := vs', initialized := True\<rparr>)
      | (Inr success, vs') \<Rightarrow>
          (Inr (if success then Info_index_loaded else Error_index_load_failed),
           ixr\<lparr>vector_store := vs', initialized := True\<rparr>))"

section \<open>Retriever\<close>

subsection \<open>Title boost\<close>

text \<open>
  The stop words of \<open>_calculate_title_boost\<close>, in the order of the source: eleven
  one-character Chinese words, eleven English words, ten more Chinese words.
\<close>

definition stopwords :: "ustring list" where
  "stopwords =
     [[30340], [20102], [21644], [26159], [22312], [26377], [25105], [20320], [20182],
      [22905], [23427],
      [116, 104, 101], [97], [97, 110], [97, 110, 100], [111, 114], [98, 117, 116],
      [105, 110], [111, 110], [97, 116], [116, 111], [102, 111, 114],
      [21578, 35785], [31508, 35760], [20013], [21738, 20123], [30456, 20851],
      [20449, 24687], [20851, 20110], [26377, 20851], [20040], [21527]]"

text \<open>
  The class of the pattern that splits the query: white space, and the fullwidth comma,
  ideographic full stop, fullwidth exclamation and question marks, ideographic comma.
\<close>

definition is_separator :: "nat \<Rightarrow> bool" where
  "is_separator c \<longleftrightarrow>
     py_isspace c \<or> c = 65292 \<or> c = 12290 \<or> c = 65281 \<or> c = 65311 \<or> c = 12289"

text \<open>
  The words of length \<open>n\<close> inside a token that the inner loop adds at position \<open>i\<close>.
\<close>

definition gram :: "nat \<Rightarrow> ustring \<Rightarrow> nat \<Rightarrow> ustring list" where
  "gram n token i =
     (if i + n \<le> length token then
        (let word = take n (drop i token)
         in if word \<notin> set stopwords \<and> \<not> py_isascii word then [word] else [])
      else [])"

text \<open>What one token adds to the keyword set.\<close>

definition token_keywords :: "ustring \<Rightarrow> ustring list" where
  "token_keywords token =
     (if py_isascii token \<and> length token \<ge> 2 then
        (if token \<notin> set stopwords then [token] else [])
      else concat (map (\<lambda>i. gram 2 token i @ gram 3 token i) [0..<length token]))"

text \<open>
  The keyword set of the lower-cased query, as a list without repetitions (the source
  only counts its members and the members found in the title).
\<close>

definition query_keywords :: "ustring \<Rightarrow> ustring list" where
  "query_keywords query_lower =
     remdups (concat (map token_keywords
       (filter (\<lambda>token. token \<noteq> [])
          (map py_strip (re_split is_separator False [] query_lower)))))"

text \<open>
  \<open>str.lower\<close> is the lower-casing of the Python runtime, defined by the Unicode tables
  it ships and not by this repository. \<open>_calculate_title_boost\<close> calls it on the query
  and on the title; it enters as the parameter \<open>lower\<close>, and so it does wherever the
  title boost is computed.
\<close>

definition calculate_title_boost :: "(ustring \<Rightarrow> ustring) \<Rightarrow> ustring \<Rightarrow> ustring \<Rightarrow> real" where
  "calculate_title_boost lower query title =
     (if title = [] \<or> query = [] then 1
      else
        let query_lower = lower query;
            title_lower = lower title;
            kws = query_keywords query_lower
        in if kws = [] then 1
           else
             let matched_count = length (filter (\<lambda>keyword. py_contains title_lower keyword) kws);
                 coverage = real matched_count / real (length kws)
             in 1 + coverage)"

subsection \<open>Time decay\<close>

record time_decay_config =
  recent_months :: int
  recent_boost :: real
  old_years :: int
  old_penalty :: real

text \<open>\<open>timedelta(days=n)\<close> in microseconds.\<close>

definition days :: "int \<Rightarrow> int" where
  "days n = n * 86400000000"

definition calculate_time_decay :: "time_decay_config \<Rightarrow> int \<Rightarrow> int option \<Rightarrow> real" where
  "calculate_time_decay cfg now modified_at =
     (case modified_at of
        None \<Rightarrow> 1
      | Some m \<Rightarrow>
          let delta = now - m
          in if delta < days (recent_months cfg * 30) then recent_boost cfg
             else if delta > days (old_years cfg * 365) then old_penalty cfg
             else 1)"

subsection \<open>Local search\<close>

text \<open>
  What \<open>_get_chunk_data_with_context\<close> returns for a chunk id: the rows of the metadata
  store, with the content extended by the neighbouring chunks. The queries run against
  the SQLite store; their answer enters the model as the function \<open>get_chunk\<close>, which is
  \<open>None\<close> where the chunk or its document is not stored.
\<close>

record chunk_data =
  cd_extended_content :: ustring
  cd_file_path :: ustring
  cd_title :: ustring
  cd_tags :: "ustring list"
  cd_backlinks :: "ustring list"
  cd_created_at :: "int option"
  cd_modified_at :: "int option"

text \<open>The fields of \<open>SearchResult\<close>.\<close>

record search_result =
  sr_content :: ustring
  sr_file_path :: ustring
  sr_title :: ustring
  sr_score :: real
  sr_source :: string
  sr_chunk_id :: "string option"
  sr_tags :: "ustring list"
  sr_backlinks :: "ustring list"
  sr_created_at :: "int option"
  sr_url :: "ustring option"

record settings =
  embedding_model :: string
  embedding_batch_size :: int
  time_decay :: time_decay_config
  similarity_threshold :: real

text \<open>Step 3 of \<open>local_search\<close>: the loop over the hits of the vector search.\<close>

definition score_hits ::
  "(ustring \<Rightarrow> ustring) \<Rightarrow> settings \<Rightarrow> int \<Rightarrow> (string \<Rightarrow> chunk_data option) \<Rightarrow> ustring \<Rightarrow> (string \<times> real) list
   \<Rightarrow> search_result list" where
  "score_hits lower cfg now get_chunk query vector_results =
     concat (map (\<lambda>(chunk_id, similarity_score).
       case get_chunk chunk_id of
         None \<Rightarrow> []
       | Some cd \<Rightarrow>
           if similarity_score \<ge> similarity_threshold cfg then
             (let time_weight = calculate_time_decay (time_decay cfg) now (cd_modified_at cd);
                  title_boost = calculate_title_boost lower query (cd_title cd);
                  final_score = similarity_score * time_weight * title_boost
              in [\<lparr>sr_content = cd_extended_content cd,
                   sr_file_path = cd_file_path cd,
                   sr_title = cd_title cd,
                   sr_score = final_score,
                   sr_source = ''local'',
                   sr_chunk_id = Some chunk_id,
                   sr_tags = cd_tags cd,
                   sr_backlinks = cd_backlinks cd,
                   sr_created_at = cd_created_at cd,
                   sr_url = None\<rparr>])
           else []) vector_results)"

text \<open>
  \<open>results.sort(key=lambda x: x.score, reverse=True)\<close>: descending, and results of equal
  score stay in their order.
\<close>

definition sort_by_score :: "search_result list \<Rightarrow> search_result list" where
  "sort_by_score results = sort_key (\<lambda>x. - sr_score x) results"

definition local_search ::
  "(ustring \<Rightarrow> ustring) \<Rightarrow> server \<Rightarrow> (ustring \<Rightarrow> 'h) \<Rightarrow> (string \<Rightarrow> chunk_data option) \<Rightarrow> int \<Rightarrow> settings
   \<Rightarrow> vector_store \<Rightarrow> ustring \<Rightarrow> int \<Rightarrow> 'h embedder
   \<Rightarrow> (error + search_result list) \<times> 'h embedder" where
  "local_search lower srv compute_hash get_chunk now cfg vs query top_k est =
     (if top_k \<le> 0 then (Inr [], est)
      else
        case embed_query srv compute_hash (embedding_model cfg) (embedding_batch_size cfg)
               query est of
          (Inl e, est') \<Rightarrow> (Inl e, est')
        | (Inr query_vector, est') \<Rightarrow>
            (case search vs query_vector (top_k * 3) of
               Inl e \<Rightarrow> (Inl e, est')
             | Inr vector_results \<Rightarrow>
                 if vector_results = [] then (Inr [], est')
                 else
                   (Inr (take (nat top_k)
                           (sort_by_score (score_hits lower cfg now get_chunk query vector_results))),
                    est')))"

subsection \<open>Web search and hybrid search\<close>

text \<open>
  An item of the web search adapter is a dictionary from field names to texts. The
  adapter itself (the search engine and the page fetches) is the parameter \<open>web\<close>.
\<close>

type_synonym web_item = "string \<rightharpoonup> ustring"

definition dict_get :: "web_item \<Rightarrow> string \<Rightarrow> ustring \<Rightarrow> ustring" where
  "dict_get item key dflt = (case item key of None \<Rightarrow> dflt | Some v \<Rightarrow> v)"

definition web_search_async ::
  "(ustring \<Rightarrow> int \<Rightarrow> web_item list) \<Rightarrow> ustring \<Rightarrow> int \<Rightarrow> search_result list" where
  "web_search_async web query top_k =
     map (\<lambda>item.
            let content = (if dict_get item ''content'' [] \<noteq> [] then dict_get item ''content'' []
                           else dict_get item ''snippet'' [])
            in \<lparr>sr_content = content,
                sr_file_path = [],
                sr_title = dict_get item ''title'' [],
                sr_score = 0.5,
                sr_source = ''web'',
                sr_chunk_id = None,
                sr_tags = [],
                sr_backlinks = [],
                sr_created_at = None,
                sr_url = Some (dict_get item ''url'' [])\<rparr>)
         (web query top_k)"

text \<open>
  \<open>hybrid_search\<close> from the two budgets on: the source computes \<open>local_k\<close> and
  \<open>network_k\<close> from \<open>local_ratio\<close> in floating point, and the model takes them as they
  come out. The two searches share no state, so running them one after the other gives
  what running them together gives. The result is the sorted list before \<open>to_dict\<close>,
  which copies the fields.
\<close>

definition hybrid_search ::
  "(ustring \<Rightarrow> ustring) \<Rightarrow> server \<Rightarrow> (ustring \<Rightarrow> 'h) \<Rightarrow> (string \<Rightarrow> chunk_data option) \<Rightarrow> int \<Rightarrow> settings
   \<Rightarrow> (ustring \<Rightarrow> int \<Rightarrow> web_item list) \<Rightarrow> vector_store \<Rightarrow> ustring \<Rightarrow> int \<Rightarrow> int \<Rightarrow> 'h embedder
   \<Rightarrow> (error + search_result list) \<times> 'h embedder" where
  "hybrid_search lower srv compute_hash get_chunk now cfg web vs query local_k network_k est =
     (case (if local_k > 0
            then local_search lower srv compute_hash get_chunk now cfg vs query local_k est
            else (Inr [], est)) of
        (Inl e, est') \<Rightarrow> (Inl e, est')
      | (Inr local_results, est') \<Rightarrow>
          let web_results = (if network_k > 0 then web_search_async web query network_k else []);
              all_results = local_results @ web_results
          in (Inr (sort_by_score all_results), est'))"

section \<open>Concrete inputs\<close>

text \<open>
  The examples need a lower-casing and an upper-casing to run with. \<open>latin1_lower\<close> and
  \<open>latin1_upper\<close> are \<open>str.lower\<close> and \<open>str.upper\<close> on the texts whose code points all
  lie below 256 (Basic Latin and the Latin-1 Supplement); the lower-casing also covers the
  three code points above 255 that upper-casing such a text can produce. On any other
  text they are not Python's functions. They are inputs of the examples, which stay
  inside that range; no statement about all texts is made through them.
\<close>

definition latin1_lower_cp :: "nat \<Rightarrow> ustring" where
  "latin1_lower_cp c =
     (if (65 \<le> c \<and> c \<le> 90) \<or> (192 \<le> c \<and> c \<le> 222 \<and> c \<noteq> 215) then [c + 32]
      else if c = 376 then [255]
      else if c = 924 then [956]
      else [c])"

definition latin1_upper_cp :: "nat \<Rightarrow> ustring" where
  "latin1_upper_cp c =
     (if (97 \<le> c \<and> c \<le> 122) \<or> (224 \<le> c \<and> c \<le> 254 \<and> c \<noteq> 247) then [c - 32]
      else if c = 223 then [83, 83]
      else if c = 181 then [924]
      else if c = 255 then [376]
      else if c = 956 then [924]
      else [c])"

definition latin1_lower :: "ustring \<Rightarrow> ustring" where
  "latin1_lower s = concat (map latin1_lower_cp s)"

definition latin1_upper :: "ustring \<Rightarrow> ustring" where
  "latin1_upper s = concat (map latin1_upper_cp s)"

text \<open>
  \<open>two_stops_text\<close> is \<open>ab\<close>, an ideographic full stop, \<open>cd\<close>, an ASCII full stop and
  \<open>efghij\<close>. \<open>blank_run_text\<close> is \<open>abcdefghij\<close>, ten spaces and \<open>klmnopqrst\<close>: one
  paragraph without any delimiter.
\<close>

definition two_stops_text :: ustring where
  "two_stops_text = [97, 98, 12290, 99, 100, 46, 101, 102, 103, 104, 105, 106]"

definition blank_run_text :: ustring where
  "blank_run_text =
     [97, 98, 99, 100, 101, 102, 103, 104, 105, 106,
      32, 32, 32, 32, 32, 32, 32, 32, 32, 32,
      107, 108, 109, 110, 111, 112, 113, 114, 115, 116]"

text \<open>
  A store just created and one chunk with a unit vector; a store that was never built or
  loaded, and a disk without index file; a store of two orthogonal unit vectors. The
  service \<open>unit_server\<close> answers every text with the vector \<open>(1, 0)\<close>; the settings are
  the defaults of the configuration. One local note titled \<open>a\<close> and one web item.
\<close>

definition example_store :: vector_store where
  "example_store = \<lparr>dimension = 2, index = Some [], chunk_ids = []\<rparr>"

definition example_chunk :: document_chunk where
  "example_chunk =
     \<lparr>dc_chunk_id = ''d0_chunk_0'', dc_document_id = ''d0'', dc_content = [110, 111, 116, 101],
      dc_chunk_index = 0, dc_start_pos = 0, dc_end_pos = 4, dc_embedding = Some [1, 0],
      dc_file_path = [97, 46, 109, 100], dc_title = [97], dc_tags = [], dc_backlinks = [],
      dc_created_at = None, dc_modified_at = None\<rparr>"

definition empty_disk :: disk where
  "empty_disk = \<lparr>index_file = None, mapping_file = None\<rparr>"

definition fresh_store :: vector_store where
  "fresh_store = \<lparr>dimension = 2, index = None, chunk_ids = []\<rparr>"

definition fresh_embedder :: "ustring embedder" where
  "fresh_embedder = \<lparr>cache = Map.empty, cache_initialized = False, requests = []\<rparr>"

definition unit_server :: server where
  "unit_server n texts = Ok (zip (map int [0..<length texts]) (map (\<lambda>t. [1, 0]) texts))"

definition example_settings :: settings where
  "example_settings =
     \<lparr>embedding_model = ''m'', embedding_batch_size = 8,
      time_decay = \<lparr>recent_months = 3, recent_boost = 1.5, old_years = 1, old_penalty = 0.8\<rparr>,
      similarity_threshold = 0.3\<rparr>"

definition two_vector_store :: vector_store where
  "two_vector_store =
     \<lparr>dimension = 2, index = Some [[1, 0], [0, 1]], chunk_ids = [''d0_chunk_0'', ''d0_chunk_1'']\<rparr>"

definition example_chunk_data :: chunk_data where
  "example_chunk_data =
     \<lparr>cd_extended_content = [110, 111, 116, 101], cd_file_path = [97, 46, 109, 100],
      cd_title = [97], cd_tags = [], cd_backlinks = [], cd_created_at = None,
      cd_modified_at = None\<rparr>"

definition example_local_result :: search_result where
  "example_local_result =
     \<lparr>sr_content = [110, 111, 116, 101], sr_file_path = [97, 46, 109, 100], sr_title = [97],
      sr_score = 1, sr_source = ''local'', sr_chunk_id = Some ''d0_chunk_0'', sr_tags = [],
      sr_backlinks = [], sr_created_at = None, sr_url = None\<rparr>"

definition example_web_item :: web_item where
  "example_web_item = [''title'' \<mapsto> [119], ''url'' \<mapsto> [117], ''snippet'' \<mapsto> [115]]"

definition example_web_result :: search_result where
  "example_web_result =
     \<lparr>sr_content = [115], sr_file_path = [], sr_title = [119],
      sr_score = 0.5, sr_source = ''web'', sr_chunk_id = None, sr_tags = [],
      sr_backlinks = [], sr_created_at = None, sr_url = Some [117]\<rparr>"

definition warm_embedder :: "ustring embedder" where
  "warm_embedder =
     \<lparr>cache = [([97], ''m'') \<mapsto> [1, 0]], cache_initialized = True, requests = [[[97]]]\<rparr>"

text \<open>
  The query \<open>Logseq usage\<close> and the title \<open>Logseq tips\<close>; the German word for street,
  written with the sharp s (code point 223). Three one-letter texts; an embedding service
  that answers each text with its code points as the vector and lists the \<open>data\<close>
  entries in reverse order; an embedder whose cache already holds the first and the third
  text, with vectors of its own; and the embedders these runs end in.
\<close>

definition logseq_usage :: ustring where
  "logseq_usage = [76, 111, 103, 115, 101, 113, 32, 117, 115, 97, 103, 101]"

definition logseq_tips :: ustring where
  "logseq_tips = [76, 111, 103, 115, 101, 113, 32, 116, 105, 112, 115]"

definition strasse :: ustring where
  "strasse = [115, 116, 114, 97, 223, 101]"







text \<open>
  A store of three unit vectors at the angles whose cosines with \<open>(1, 0)\<close> are 1, 0.6
  and 0. The second chunk belongs to a note last modified at time 0, which at the time
  \<open>later\<close>, a thousand days on, is an old note; the other chunks carry no modification
  time. The results these give against the query \<open>a\<close>: a local one of score 1, a local
  one of score 0.6 times 0.8, and between them the web result.
\<close>

definition three_vector_store :: vector_store where
  "three_vector_store =
     \<lparr>dimension = 2, index = Some [[1, 0], [0.6, 0.8], [0, 1]],
      chunk_ids = [''d0_chunk_0'', ''d1_chunk_0'', ''d2_chunk_0'']\<rparr>"

definition later :: int where
  "later = days 1000"

definition aged_chunk_data :: chunk_data where
  "aged_chunk_data =
     \<lparr>cd_extended_content = [111, 108, 100], cd_file_path = [98, 46, 109, 100],
      cd_title = [98], cd_tags = [], cd_backlinks = [], cd_created_at = None,
      cd_modified_at = Some 0\<rparr>"

definition aged_get_chunk :: "string \<Rightarrow> chunk_data option" where
  "aged_get_chunk chunk_id =
     (if chunk_id = ''d1_chunk_0'' then Some aged_chunk_data else Some example_chunk_data)"

definition aged_local_result :: search_result where
  "aged_local_result =
     \<lparr>sr_content = [111, 108, 100], sr_file_path = [98, 46, 109, 100], sr_title = [98],
      sr_score = 0.48, sr_source = ''local'', sr_chunk_id = Some ''d1_chunk_0'', sr_tags = [],
      sr_backlinks = [], sr_created_at = None, sr_url = None\<rparr>"

section \<open>Properties of the chunker\<close>

subsection \<open>Stripping\<close>

lemma py_strip_eq_Nil: "py_strip s = [] \<longleftrightarrow> (\<forall>c \<in> set s. py_isspace c)"
proof -
  have "(\<forall>c \<in> set (dropWhile py_isspace s). py_isspace c) \<longleftrightarrow> (\<forall>c \<in> set s. py_isspace c)"
  proof
    assume a: "\<forall>c \<in> set (dropWhile py_isspace s). py_isspace c"
    have "set s = set (takeWhile py_isspace s) \<union> set (dropWhile py_isspace s)"
      by (metis set_append takeWhile_dropWhile_id)
    with a show "\<forall>c \<in> set s. py_isspace c"
      by (auto dest: set_takeWhileD)
  next
    assume "\<forall>c \<in> set s. py_isspace c"
    then show "\<forall>c \<in> set (dropWhile py_isspace s). py_isspace c"
      by (auto dest: set_dropWhileD)
  qed
  then show ?thesis
    by (simp add: py_strip_def)
qed

subsection \<open>Small documents\<close>

text \<open>
  Claim C2, as the code has it. A text shorter than \<open>chunk_size\<close> that holds a character
  other than white space becomes exactly one chunk, the triple of the text, 0 and its
  length; a text shorter than \<open>chunk_size\<close> without such a character (the empty text
  among them) gives no chunk at all. The splitter is never entered, so the answer is there
  for every bound on its passes.
\<close>

theorem chunk_content_small:
  "int (length content) < chunk_size \<Longrightarrow>
   chunk_content fuel content chunk_size overlap min_chunk_size =
     Some (if \<exists>c \<in> set content. \<not> py_isspace c
           then [(content, 0, int (length content))] else [])"
  by (simp add: chunk_content_def py_strip_eq_Nil)

text \<open>A document of 240 letters with \<open>chunk_size = 300\<close>: one chunk from 0 to 240.\<close>

theorem chunk_content_small_witness:
  "int (length (replicate 240 (97::nat))) < 300 \<and>
   chunk_content 1 (replicate 240 97) 300 80 100 = Some [(replicate 240 97, 0, 240)]"
  using chunk_content_small [of "replicate 240 97" 300 1 80 100]
  by (simp add: py_isspace_def)

text \<open>
  The empty text is shorter than any positive \<open>chunk_size\<close> and yields no chunk, not the
  chunk \<open>('', 0, 0)\<close>.
\<close>

theorem chunk_content_empty_counterexample:
  "int (length ([] :: ustring)) < 300 \<and> chunk_content 1 [] 300 80 100 = Some []"
  by (simp add: chunk_content_def py_strip_def)

subsection \<open>The end of a chunk\<close>

text \<open>
  The loop over the delimiters computes a maximum: the position it ends with is the
  greatest position at which any of the delimiters occurs in the window, whatever place
  the delimiter has in the list.
\<close>

lemma fold_max_eq_Max:
  "fold (\<lambda>d best. if f d > best then f d else best) ds (b::int) = Max (insert b (f ` set ds))"
proof (induction ds arbitrary: b)
  case Nil
  then show ?case by simp
next
  case (Cons d ds)
  have "(if f d > b then f d else b) = max (f d) b"
    by (simp add: max_def)
  moreover have "Max (insert (max (f d) b) (f ` set ds)) =
      Max (insert b (insert (f d) (f ` set ds)))"
    by (cases "f ` set ds = {}") (simp_all add: max.commute max.left_commute max.assoc)
  ultimately show ?case
    using Cons.IH [of "max (f d) b"] by simp
qed

lemma find_best_pos_Max:
  "find_best_pos text a b = Max (insert (- 1) ((\<lambda>d. py_rfind text d a b) ` set delimiters))"
  by (simp only: find_best_pos_def Let_def fold_max_eq_Max)

lemma two_stops_length: "length two_stops_text = 12"
  by (simp add: two_stops_text_def)

lemma two_stops_rfind:
  "py_rfind two_stops_text [12290] 2 10 = 2"
  "py_rfind two_stops_text [65281] 2 10 = - 1"
  "py_rfind two_stops_text [65311] 2 10 = - 1"
  "py_rfind two_stops_text [10, 10] 2 10 = - 1"
  "py_rfind two_stops_text [46] 2 10 = 5"
  "py_rfind two_stops_text [33] 2 10 = - 1"
  "py_rfind two_stops_text [63] 2 10 = - 1"
  by (simp_all add: py_rfind_def Let_def two_stops_text_def)

lemma two_stops_best: "find_best_pos two_stops_text 2 10 = 5"
  by (simp add: find_best_pos_def delimiters_def two_stops_rfind)

text \<open>
  Claim C1 at \<open>two_stops_text\<close> with \<open>start = 0\<close>, \<open>chunk_size = 10\<close> and
  \<open>min_chunk_size = 2\<close>, so that the window runs from 2 to 10. The ideographic full stop,
  first in the order of priority, is found in the window at position 2; the ASCII full
  stop, fifth in that order, at position 5. The chunk ends at 6, behind the ASCII full
  stop, and not at 3, behind the delimiter of higher priority.
\<close>

theorem chunk_end_takes_last_delimiter:
  "py_rfind two_stops_text [12290] 2 10 = 2 \<and> py_rfind two_stops_text [46] 2 10 = 5 \<and>
   chunk_end two_stops_text 0 10 2 = 6"
  by (simp add: chunk_end_def two_stops_best two_stops_length two_stops_rfind)

subsection \<open>When the splitter returns\<close>

text \<open>
  With \<open>0 \<le> overlap < min_chunk_size \<le> chunk_size\<close>, as in the default configuration
  (80, 100, 300), every pass that goes round again starts further right: a chunk that
  does not reach the end of the text is at least \<open>min_chunk_size\<close> long, which is more
  than the overlap. So the loop returns within as many passes as the text has characters.
\<close>

lemma py_rfind_found:
  "py_rfind s sub i j \<noteq> - 1 \<Longrightarrow> 0 \<le> i \<Longrightarrow> 0 \<le> j \<Longrightarrow> j \<le> int (length s) \<Longrightarrow>
   i \<le> py_rfind s sub i j \<and> py_rfind s sub i j + int (length sub) \<le> j"
proof -
  assume found: "py_rfind s sub i j \<noteq> - 1" and i: "0 \<le> i" and j: "0 \<le> j" "j \<le> int (length s)"
  let ?hits = "filter (\<lambda>k. take (length sub) (drop (nat k) s) = sub) [i..j - int (length sub)]"
  from i j have eq: "py_rfind s sub i j = (if ?hits = [] then - 1 else last ?hits)"
    by (simp add: py_rfind_def Let_def)
  with found have ne: "?hits \<noteq> []" by auto
  then have "last ?hits \<in> set ?hits" by (rule last_in_set)
  then have "i \<le> last ?hits \<and> last ?hits \<le> j - int (length sub)" by simp
  with eq ne show ?thesis by simp
qed

lemma find_best_pos_found:
  assumes "find_best_pos text a b \<noteq> - 1" "0 \<le> a" "0 \<le> b" "b \<le> int (length text)"
  shows "a \<le> find_best_pos text a b \<and> find_best_pos text a b + 1 \<le> b"
proof -
  let ?S = "insert (- 1) ((\<lambda>d. py_rfind text d a b) ` set delimiters)"
  have "Max ?S \<in> ?S" by (intro Max_in) simp_all
  with assms(1) obtain d where d: "d \<in> set delimiters"
    and m: "find_best_pos text a b = py_rfind text d a b"
    by (auto simp: find_best_pos_Max)
  from d have len: "1 \<le> int (length d)"
    by (auto simp: delimiters_def)
  from py_rfind_found [of "text" d a b] assms m
  have "a \<le> py_rfind text d a b \<and> py_rfind text d a b + int (length d) \<le> b"
    by simp
  with m len show ?thesis by simp
qed

lemma chunk_end_bounds:
  assumes "0 \<le> start" "start < int (length text)" "0 \<le> min_chunk_size"
    "min_chunk_size \<le> chunk_size"
  shows "chunk_end text start chunk_size min_chunk_size = int (length text) \<or>
         (start + min_chunk_size \<le> chunk_end text start chunk_size min_chunk_size \<and>
          chunk_end text start chunk_size min_chunk_size \<le> int (length text))"
proof (cases "min (start + chunk_size) (int (length text)) \<ge> int (length text)")
  case True
  then show ?thesis by (simp add: chunk_end_def Let_def)
next
  case False
  then have ideal: "min (start + chunk_size) (int (length text)) = start + chunk_size"
    and lt: "start + chunk_size < int (length text)"
    by simp_all
  let ?a = "max (start + min_chunk_size) (start + chunk_size - 200)"
  let ?b = "start + chunk_size"
  have a: "0 \<le> ?a" "start + min_chunk_size \<le> ?a" and b: "0 \<le> ?b" "?b \<le> int (length text)"
    using assms lt by simp_all
  have e: "chunk_end text start chunk_size min_chunk_size =
      (if find_best_pos text ?a ?b \<noteq> - 1 then find_best_pos text ?a ?b + 1
       else if py_rfind text [32] ?a ?b \<noteq> - 1 then py_rfind text [32] ?a ?b + 1 else ?b)"
    using False by (simp add: chunk_end_def Let_def ideal)
  show ?thesis
  proof (cases "find_best_pos text ?a ?b \<noteq> - 1")
    case True
    from find_best_pos_found [OF True a(1) b] a(2) b(2) e True show ?thesis
      by simp
  next
    case nb: False
    show ?thesis
    proof (cases "py_rfind text [32] ?a ?b \<noteq> - 1")
      case True
      from py_rfind_found [OF True a(1) b] a(2) b(2) e nb True show ?thesis
        by simp
    next
      case False
      with e nb assms b show ?thesis by simp
    qed
  qed
qed

lemma split_body_advances:
  assumes "0 \<le> start" "start < int (length text)" "0 \<le> overlap" "overlap < min_chunk_size"
    "min_chunk_size \<le> chunk_size"
    and "split_body text start_offset chunk_size overlap min_chunk_size start chunks = Continue start' chunks'"
  shows "start < start'"
proof -
  let ?e = "chunk_end text start chunk_size min_chunk_size"
  from chunk_end_bounds [of start "text" min_chunk_size chunk_size] assms
  consider "?e = int (length text)" | "start + min_chunk_size \<le> ?e"
    by auto
  then show ?thesis
  proof cases
    case 1
    with assms show ?thesis
      by (auto simp: split_body_def Let_def split: if_splits)
  next
    case 2
    with assms show ?thesis
      by (auto simp: split_body_def Let_def split: if_splits)
  qed
qed

lemma split_loop_returns:
  assumes "0 \<le> overlap" "overlap < min_chunk_size" "min_chunk_size \<le> chunk_size"
  shows "0 \<le> start \<Longrightarrow> int (length text) - start \<le> int fuel \<Longrightarrow>
         split_loop fuel text start_offset chunk_size overlap min_chunk_size start chunks \<noteq> None"
proof (induction fuel arbitrary: start chunks)
  case 0
  then show ?case by simp
next
  case (Suc fuel)
  show ?case
  proof (cases "start < int (length text)")
    case False
    then show ?thesis by simp
  next
    case True
    show ?thesis
    proof (cases "split_body text start_offset chunk_size overlap min_chunk_size start chunks")
      case (Break cs)
      with True show ?thesis by simp
    next
      case (Continue start' chunks')
      from split_body_advances [OF Suc.prems(1) True assms Continue]
      have "start < start'" .
      with Suc.prems have "0 \<le> start'" "int (length text) - start' \<le> int fuel"
        by simp_all
      then have "split_loop fuel text start_offset chunk_size overlap min_chunk_size start' chunks'
          \<noteq> None"
        by (rule Suc.IH)
      with True Continue show ?thesis by simp
    qed
  qed
qed

lemma split_large_text_returns:
  "0 \<le> overlap \<Longrightarrow> overlap < min_chunk_size \<Longrightarrow> min_chunk_size \<le> chunk_size \<Longrightarrow>
   \<exists>result. split_large_text (length text) text start_offset chunk_size overlap min_chunk_size
              = Some result"
  using split_loop_returns [of overlap min_chunk_size chunk_size 0 "text" "length text"
      start_offset "[]"]
  by (auto simp: split_large_text_def)

subsection \<open>A run of the splitter that does not end\<close>

lemma blank_run_length: "length blank_run_text = 30"
  by (simp add: blank_run_text_def)

lemma blank_run_nonempty: "blank_run_text \<noteq> []"
  by (simp add: blank_run_text_def)

lemma blank_run_rfind_first:
  "py_rfind blank_run_text [12290] 5 10 = - 1"
  "py_rfind blank_run_text [65281] 5 10 = - 1"
  "py_rfind blank_run_text [65311] 5 10 = - 1"
  "py_rfind blank_run_text [10, 10] 5 10 = - 1"
  "py_rfind blank_run_text [46] 5 10 = - 1"
  "py_rfind blank_run_text [33] 5 10 = - 1"
  "py_rfind blank_run_text [63] 5 10 = - 1"
  "py_rfind blank_run_text [32] 5 10 = - 1"
  by (simp_all add: py_rfind_def Let_def blank_run_text_def)

lemma blank_run_rfind_second:
  "py_rfind blank_run_text [12290] 15 20 = - 1"
  "py_rfind blank_run_text [65281] 15 20 = - 1"
  "py_rfind blank_run_text [65311] 15 20 = - 1"
  "py_rfind blank_run_text [10, 10] 15 20 = - 1"
  "py_rfind blank_run_text [46] 15 20 = - 1"
  "py_rfind blank_run_text [33] 15 20 = - 1"
  "py_rfind blank_run_text [63] 15 20 = - 1"
  "py_rfind blank_run_text [32] 15 20 = 19"
  by (simp_all add: py_rfind_def Let_def blank_run_text_def)

lemma blank_run_end_first: "chunk_end blank_run_text 0 10 5 = 10"
  by (simp add: chunk_end_def find_best_pos_def delimiters_def blank_run_rfind_first
      blank_run_length)

lemma blank_run_end_second: "chunk_end blank_run_text 10 10 5 = 20"
  by (simp add: chunk_end_def find_best_pos_def delimiters_def blank_run_rfind_second
      blank_run_length)

lemma blank_run_strip_first:
  "py_strip (py_slice blank_run_text 0 10) = [97, 98, 99, 100, 101, 102, 103, 104, 105, 106]"
  by (simp add: py_strip_def py_slice_def py_index_def blank_run_text_def py_isspace_def)

lemma blank_run_strip_second: "py_strip (py_slice blank_run_text 10 20) = []"
  by (simp add: py_strip_def py_slice_def py_index_def blank_run_text_def py_isspace_def)

text \<open>
  The first pass emits the ten letters and, since \<open>end - overlap = 0\<close> does not pass the
  start of that chunk, moves on to 10. The second pass cuts behind the last space of its
  window, at 20; the slice is all white space and is dropped; \<open>end - overlap = 10\<close> lies
  beyond the start of the last chunk emitted, so the guard lets it stand, and the new
  start is the old one.
\<close>

lemma blank_run_pass_first:
  "split_body blank_run_text so 10 10 5 0 [] =
     Continue 10 [([97, 98, 99, 100, 101, 102, 103, 104, 105, 106], so, so + 10)]"
  by (simp add: split_body_def blank_run_end_first blank_run_strip_first blank_run_length)

lemma blank_run_pass_second:
  "split_body blank_run_text so 10 10 5 10
     [([97, 98, 99, 100, 101, 102, 103, 104, 105, 106], so, so + 10)] =
   Continue 10 [([97, 98, 99, 100, 101, 102, 103, 104, 105, 106], so, so + 10)]"
  by (simp add: split_body_def blank_run_end_second blank_run_strip_second blank_run_length)

lemma blank_run_stuck:
  "split_loop fuel blank_run_text so 10 10 5 10
     [([97, 98, 99, 100, 101, 102, 103, 104, 105, 106], so, so + 10)] = None"
  by (induction fuel) (simp_all add: blank_run_pass_second blank_run_length)

lemma blank_run_split: "split_large_text fuel blank_run_text so 10 10 5 = None"
  by (cases fuel)
    (simp_all add: split_large_text_def blank_run_pass_first blank_run_stuck blank_run_length)

lemma blank_run_paragraphs: "split_blank_lines [] blank_run_text = [blank_run_text]"
  by (simp add: blank_run_text_def)

lemma blank_run_strip: "py_strip blank_run_text = blank_run_text"
  by (simp add: py_strip_def blank_run_text_def py_isspace_def)

text \<open>
  Claim C9 at \<open>blank_run_text\<close> with \<open>chunk_size = 10\<close>, \<open>overlap = 10\<close> and
  \<open>min_chunk_size = 5\<close>, an overlap that is not below \<open>min_chunk_size\<close>: however many
  passes are allowed, the splitter does not return, and neither does \<open>chunk_content\<close>,
  which hands this text to it.
\<close>

theorem split_large_text_never_returns:
  "split_large_text fuel blank_run_text 0 10 10 5 = None \<and>
   chunk_content fuel blank_run_text 10 10 5 = None"
  by (simp add: blank_run_split chunk_content_def blank_run_paragraphs blank_run_strip
      blank_run_length blank_run_nonempty emit_accumulated_def)

section \<open>Properties of the embedding client\<close>

subsection \<open>What a slice asks the service for\<close>







subsection \<open>Stitching\<close>







subsection \<open>The cache-fronted batch\<close>



subsection \<open>Sorting by a key without repetitions\<close>






subsection \<open>Slices\<close>



lemma batches_single: "0 < b \<Longrightarrow> batches b [x] = [[x]]"
proof -
  assume "0 < b"
  then have "(Suc 0 + nat b - 1) div nat b = 1"
    by (simp add: div_eq_0_iff nat_less_iff)
       
  with \<open>0 < b\<close> show ?thesis
    by (simp add: batches_def Let_def)
qed


subsection \<open>A service that answers every text with its vector\<close>




subsection \<open>The order of the output\<close>




subsection \<open>Three texts, two slices, the second slice first\<close>








subsection \<open>Three texts, the first and the third in the cache\<close>







section \<open>Properties of the vector store\<close>

text \<open>
  Claim C7. After \<open>create_index\<close> the index holds no vector and the mapping is empty.
  Every \<open>add_vectors\<close> that returns keeps the number of vectors equal to the length of
  the mapping: it adds one vector and one id per chunk, the ids in the order of the
  chunks and the normalised vectors in the same order. (A call that raises leaves the
  store as it was.)
\<close>

theorem vector_count_matches_mapping:
  "(ntotal (create_index vs0) = 0 \<and> chunk_ids (create_index vs0) = []) \<and>
   (ntotal vs = length (chunk_ids vs) \<longrightarrow> add_vectors vs cs = Inr vs' \<longrightarrow>
      ntotal vs' = length (chunk_ids vs') \<and>
      ntotal vs' = ntotal vs + length cs \<and>
      chunk_ids vs' = chunk_ids vs @ map dc_chunk_id cs \<and>
      (\<forall>ix. index vs = Some ix \<longrightarrow>
         index vs' = Some (ix @ map (\<lambda>c. normalize_L2 (the (dc_embedding c))) cs)))"
  by (auto simp: create_index_def ntotal_def add_vectors_def Let_def
      split: if_splits option.splits)

lemma normalize_unit: "normalize_L2 [1, 0] = [1, 0]"
  by (simp add: normalize_L2_def)

theorem vector_count_matches_mapping_witness:
  "ntotal example_store = length (chunk_ids example_store) \<and>
   add_vectors example_store [example_chunk] =
     Inr \<lparr>dimension = 2, index = Some [[1, 0]], chunk_ids = [''d0_chunk_0'']\<rparr> \<and>
   ntotal \<lparr>dimension = 2, index = Some [[1, 0]], chunk_ids = [''d0_chunk_0'']\<rparr> =
     length (chunk_ids \<lparr>dimension = 2, index = Some [[1, 0]], chunk_ids = [''d0_chunk_0'']\<rparr>)"
proof -
  have inv: "ntotal example_store = length (chunk_ids example_store)"
    by (simp add: ntotal_def example_store_def)
  have run: "add_vectors example_store [example_chunk] =
      Inr \<lparr>dimension = 2, index = Some [[1, 0]], chunk_ids = [''d0_chunk_0'']\<rparr>"
    by (simp add: add_vectors_def example_store_def example_chunk_def normalize_unit)
  from vector_count_matches_mapping [of example_store example_store "[example_chunk]"
      "\<lparr>dimension = 2, index = Some [[1, 0]], chunk_ids = [''d0_chunk_0'']\<rparr>"] inv run
  show ?thesis by (simp add: ntotal_def example_chunk_def)
qed

subsection \<open>A store without index\<close>

lemma search_without_index: "index vs = None \<Longrightarrow> search vs qv k = Inr []"
  by (simp add: search_def)

text \<open>
  Claim C8. With no index file on disk and a store that holds no index, \<open>load\<close> answers
  \<open>False\<close> and changes nothing, \<open>load_index\<close> logs the error line, \<open>search\<close> returns the
  empty list for every query vector and every \<open>k\<close>, and a local search that returns,
  returns no result.
\<close>

theorem missing_index_reported_and_refused:
  "index_file d = None \<Longrightarrow> index vs = None \<Longrightarrow> vector_store ixr = vs \<Longrightarrow>
   load d vs = (Inr False, vs) \<and>
   load_index d ixr = (Inr Error_index_load_failed, ixr\<lparr>initialized := True\<rparr>) \<and>
   search vs qv k = Inr [] \<and>
   (\<forall>results est'.
      local_search lower srv compute_hash get_chunk now cfg vs query top_k est = (Inr results, est')
      \<longrightarrow> results = [])"
  by (auto simp: load_def load_index_def search_without_index local_search_def
      split: if_splits prod.splits sum.splits)

lemma example_embed_query:
  "embed_query unit_server id ''m'' 8 [97] fresh_embedder =
     (Inr (Some [1, 0]),
      \<lparr>cache = [([97], ''m'') \<mapsto> [1, 0]], cache_initialized = True, requests = [[[97]]]\<rparr>)"
  by (simp add: embed_query_def embed_texts_def batches_single embed_batch_with_cache_def
      get_batch_def set_batch_def embed_batch_def numeral_3_eq_3 unit_server_def stitch_def
      fresh_embedder_def)

theorem missing_index_reported_and_refused_witness:
  "index_file empty_disk = None \<and> index fresh_store = None \<and>
   load empty_disk fresh_store = (Inr False, fresh_store) \<and>
   load_index empty_disk \<lparr>vector_store = fresh_store, initialized = False\<rparr> =
     (Inr Error_index_load_failed, \<lparr>vector_store = fresh_store, initialized = True\<rparr>) \<and>
   search fresh_store (Some [1, 0]) 15 = Inr [] \<and>
   fst (local_search latin1_lower unit_server id (\<lambda>c. None) 0 example_settings fresh_store [97] 5
          fresh_embedder) = Inr []"
proof -
  have a: "index_file empty_disk = None" and b: "index fresh_store = None"
    by (simp_all add: empty_disk_def fresh_store_def)
  have c: "vector_store \<lparr>vector_store = fresh_store, initialized = False\<rparr> = fresh_store"
    by simp
  have run: "local_search latin1_lower unit_server id (\<lambda>c. None) 0 example_settings fresh_store [97] 5
      fresh_embedder =
    (Inr [], \<lparr>cache = [([97], ''m'') \<mapsto> [1, 0]], cache_initialized = True,
               requests = [[[97]]]\<rparr>)"
    by (simp add: local_search_def example_settings_def example_embed_query
        search_without_index b)
  from missing_index_reported_and_refused [OF a b c, of "Some [1, 0]" 15 latin1_lower
      unit_server id "\<lambda>c. None" 0 example_settings "[97]" 5 fresh_embedder] a b run
  show ?thesis by simp
qed

section \<open>Properties of the retriever\<close>

subsection \<open>Sorting by score\<close>

lemma set_sort_by_score: "set (sort_by_score rs) = set rs"
  by (simp add: sort_by_score_def)

lemma length_sort_by_score: "length (sort_by_score rs) = length rs"
  by (simp add: sort_by_score_def)

lemma sort_by_score_descending:
  "i \<le> j \<Longrightarrow> j < length rs \<Longrightarrow> sr_score (sort_by_score rs ! j) \<le> sr_score (sort_by_score rs ! i)"
proof -
  assume ij: "i \<le> j" and j: "j < length rs"
  have "sorted (map (\<lambda>x. - sr_score x) (sort_by_score rs))"
    by (simp add: sort_by_score_def)
  then have "map (\<lambda>x. - sr_score x) (sort_by_score rs) ! i \<le> map (\<lambda>x. - sr_score x) (sort_by_score rs) ! j"
    using ij j by (intro sorted_nth_mono) (simp_all add: length_sort_by_score)
  then show ?thesis
    using ij j by (simp add: length_sort_by_score)
qed

subsection \<open>Title boost\<close>

lemma gram_length: "w \<in> set (gram n token i) \<Longrightarrow> length w = n"
  by (auto simp: gram_def Let_def split: if_splits)

lemma token_keywords_length: "w \<in> set (token_keywords token) \<Longrightarrow> 2 \<le> length w"
  by (auto simp: token_keywords_def split: if_splits dest: gram_length)

lemma query_keywords_length: "w \<in> set (query_keywords s) \<Longrightarrow> 2 \<le> length w"
  by (auto simp: query_keywords_def dest: token_keywords_length)

lemma py_contains_Nil: "py_contains [] w \<longleftrightarrow> w = []"
  by (auto simp: py_contains_def)

lemma no_keyword_in_empty_title:
  "filter (\<lambda>keyword. py_contains [] keyword) (query_keywords s) = []"
  by (auto simp: filter_empty_conv py_contains_Nil dest: query_keywords_length)

lemma query_keywords_Nil: "query_keywords [] = []"
  by (simp add: query_keywords_def py_strip_def)

text \<open>
  The two early returns agree with the formula as soon as lower-casing the empty text
  gives the empty text: an empty query has no keyword, and no keyword (each has at least
  two characters) is in an empty title.
\<close>

lemma calculate_title_boost_formula:
  assumes "lower [] = []"
  shows "calculate_title_boost lower q T =
     (if query_keywords (lower q) = [] then 1
      else 1 + real (length (filter (\<lambda>keyword. py_contains (lower T) keyword)
                               (query_keywords (lower q))))
               / real (length (query_keywords (lower q))))"
proof (cases "T = [] \<or> q = []")
  case True
  then show ?thesis
  proof
    assume "T = []"
    then show ?thesis
      using assms by (simp add: calculate_title_boost_def no_keyword_in_empty_title)
  next
    assume "q = []"
    then show ?thesis
      using assms by (simp add: calculate_title_boost_def query_keywords_Nil)
  qed
next
  case False
  then show ?thesis
    by (simp add: calculate_title_boost_def Let_def)
qed

lemma coverage_bounds:
  "ks \<noteq> [] \<Longrightarrow> 0 \<le> real (length (filter P ks)) / real (length ks) \<and>
     real (length (filter P ks)) / real (length ks) \<le> 1"
proof -
  assume "ks \<noteq> []"
  then have "0 < real (length ks)" by simp
  moreover have "real (length (filter P ks)) \<le> real (length ks)"
    by simp
  ultimately show ?thesis
    by (simp add: divide_le_eq)
qed

lemma calculate_title_boost_range:
  "1 \<le> calculate_title_boost lower q T \<and> calculate_title_boost lower q T \<le> 2"
  using coverage_bounds [of "query_keywords (lower q)" "\<lambda>keyword. py_contains (lower T) keyword"]
  by (simp add: calculate_title_boost_def Let_def)

text \<open>
  Claim C6, as the code has it, for every lower-casing \<open>lower\<close> that maps the empty
  text to the empty text, as \<open>str.lower\<close> does, and every upper-casing \<open>upper\<close>. For every
  query and title the boost lies between 1 and 2; it is 1 when the keyword set of the
  lower-cased query is empty and otherwise 1 plus the number of keywords found in the
  lower-cased title over the number of keywords. The boost of \<open>(q.upper(), T.lower())\<close>
  is the boost of \<open>(q, T)\<close> whenever lower-casing the title twice is lower-casing it once
  and the lower-casing of the query is the same after upper-casing,
  \<open>q.upper().lower() == q.lower()\<close>.
\<close>

theorem title_boost_range_and_case:
  "lower [] = [] \<Longrightarrow>
   1 \<le> calculate_title_boost lower q T \<and> calculate_title_boost lower q T \<le> 2 \<and>
   calculate_title_boost lower q T =
     (if query_keywords (lower q) = [] then 1
      else 1 + real (length (filter (\<lambda>keyword. py_contains (lower T) keyword)
                               (query_keywords (lower q))))
               / real (length (query_keywords (lower q)))) \<and>
   (lower (lower T) = lower T \<and> lower (upper q) = lower q \<longrightarrow>
      calculate_title_boost lower q T = calculate_title_boost lower (upper q) (lower T))"
proof -
  assume empty: "lower [] = []"
  have stable: "calculate_title_boost lower q T = calculate_title_boost lower (upper q) (lower T)"
    if "lower (lower T) = lower T \<and> lower (upper q) = lower q"
    using that by (simp add: calculate_title_boost_formula [where lower = lower, OF empty])
  from calculate_title_boost_range [of lower q T] calculate_title_boost_formula [where lower = lower and q = q and T = T, OF empty]
    stable
  show ?thesis
    by blast
qed

subsection \<open>The case tables of the examples\<close>

lemma latin1_lower_Nil: "latin1_lower [] = []"
  by (simp add: latin1_lower_def)

lemma latin1_lower_append: "latin1_lower (xs @ ys) = latin1_lower xs @ latin1_lower ys"
  by (simp add: latin1_lower_def)

lemma latin1_lower_lower_cp: "latin1_lower (latin1_lower_cp c) = latin1_lower_cp c"
  by (simp add: latin1_lower_def latin1_lower_cp_def)

lemma latin1_lower_idem: "latin1_lower (latin1_lower s) = latin1_lower s"
proof (induction s)
  case Nil
  then show ?case by (simp add: latin1_lower_def)
next
  case (Cons c s)
  have "latin1_lower (c # s) = latin1_lower_cp c @ latin1_lower s"
    by (simp add: latin1_lower_def)
  then show ?case
    using Cons.IH by (simp add: latin1_lower_append latin1_lower_lower_cp)
qed

lemma latin1_lower_upper_cp_ascii:
  "c < 128 \<Longrightarrow> latin1_lower (latin1_upper_cp c) = latin1_lower_cp c"
  by (auto simp: latin1_lower_def latin1_lower_cp_def latin1_upper_cp_def)

lemma latin1_lower_upper_ascii:
  "py_isascii s \<Longrightarrow> latin1_lower (latin1_upper s) = latin1_lower s"
proof (induction s)
  case Nil
  then show ?case by (simp add: latin1_upper_def)
next
  case (Cons c s)
  then have c: "c < 128" and s: "py_isascii s"
    by (simp_all add: py_isascii_def)
  have "latin1_upper (c # s) = latin1_upper_cp c @ latin1_upper s"
    "latin1_lower (c # s) = latin1_lower_cp c @ latin1_lower s"
    by (simp_all add: latin1_upper_def latin1_lower_def)
  then show ?case
    using Cons.IH [OF s] c by (simp add: latin1_lower_append latin1_lower_upper_cp_ascii)
qed

subsection \<open>Two queries\<close>

text \<open>
  The query \<open>Logseq usage\<close> against the title \<open>Logseq tips\<close>: the keywords are \<open>logseq\<close>
  and \<open>usage\<close>, the first is in the title, the boost is 1.5 in either case.
\<close>

lemma logseq_usage_lower:
  "latin1_lower logseq_usage = [108, 111, 103, 115, 101, 113, 32, 117, 115, 97, 103, 101]"
  by (simp add: latin1_lower_def latin1_lower_cp_def logseq_usage_def)

lemma logseq_tips_lower:
  "latin1_lower logseq_tips = [108, 111, 103, 115, 101, 113, 32, 116, 105, 112, 115]"
  by (simp add: latin1_lower_def latin1_lower_cp_def logseq_tips_def)

lemma logseq_usage_ascii: "py_isascii logseq_usage"
  by (simp add: py_isascii_def logseq_usage_def)

lemma logseq_usage_tokens:
  "re_split is_separator False [] [108, 111, 103, 115, 101, 113, 32, 117, 115, 97, 103, 101] =
     [[108, 111, 103, 115, 101, 113], [117, 115, 97, 103, 101]]"
  by (simp add: is_separator_def py_isspace_def)

lemma logseq_usage_strip:
  "py_strip [108, 111, 103, 115, 101, 113] = [108, 111, 103, 115, 101, 113]"
  "py_strip [117, 115, 97, 103, 101] = [117, 115, 97, 103, 101]"
  by (simp_all add: py_strip_def py_isspace_def)

lemma logseq_usage_token_keywords:
  "token_keywords [108, 111, 103, 115, 101, 113] = [[108, 111, 103, 115, 101, 113]]"
  "token_keywords [117, 115, 97, 103, 101] = [[117, 115, 97, 103, 101]]"
  by (simp_all add: token_keywords_def py_isascii_def stopwords_def)

lemma logseq_usage_keywords:
  "query_keywords [108, 111, 103, 115, 101, 113, 32, 117, 115, 97, 103, 101] =
     [[108, 111, 103, 115, 101, 113], [117, 115, 97, 103, 101]]"
  by (simp only: query_keywords_def logseq_usage_tokens)
    (simp add: logseq_usage_strip logseq_usage_token_keywords)

lemma logseq_tips_contains:
  "py_contains [108::nat, 111, 103, 115, 101, 113, 32, 116, 105, 112, 115] [108, 111, 103, 115, 101, 113]"
  "\<not> py_contains [108::nat, 111, 103, 115, 101, 113, 32, 116, 105, 112, 115] [117, 115, 97, 103, 101]"
  by (simp_all add: py_contains_def upt_rec)

lemma logseq_boost: "calculate_title_boost latin1_lower logseq_usage logseq_tips = 3 / 2"
  by (simp add: calculate_title_boost_formula [where lower = latin1_lower, OF latin1_lower_Nil] logseq_usage_lower
      logseq_tips_lower logseq_usage_keywords logseq_tips_contains)

theorem title_boost_range_and_case_witness:
  "latin1_lower [] = [] \<and>
   latin1_lower (latin1_lower logseq_tips) = latin1_lower logseq_tips \<and>
   latin1_lower (latin1_upper logseq_usage) = latin1_lower logseq_usage \<and>
   calculate_title_boost latin1_lower logseq_usage logseq_tips = 3 / 2 \<and>
   calculate_title_boost latin1_lower (latin1_upper logseq_usage) (latin1_lower logseq_tips)
     = 3 / 2"
  using title_boost_range_and_case [where lower = latin1_lower and q = logseq_usage
      and T = logseq_tips and upper = latin1_upper, OF latin1_lower_Nil]
    latin1_lower_upper_ascii [OF logseq_usage_ascii] latin1_lower_idem [of logseq_tips]
    logseq_boost latin1_lower_Nil
  by simp

text \<open>
  The sharp s has no single upper-case letter: upper-casing the word \<open>strasse\<close> of the
  concrete inputs gives \<open>STRASSE\<close> with a double S, whose lower-casing is spelt with a
  double s and is another word. As query and title, the word with the sharp s has four
  keywords (the two- and three-letter pieces that hold the sharp s), all in the title:
  boost 2. Upper-cased, the query has one keyword, the spelling with double s, which is
  not in the title: boost 1.
\<close>

lemma strasse_lower: "latin1_lower strasse = strasse"
  by (simp add: latin1_lower_def latin1_lower_cp_def strasse_def)

lemma strasse_upper_lower:
  "latin1_lower (latin1_upper strasse) = [115, 116, 114, 97, 115, 115, 101]"
  by (simp add: latin1_lower_def latin1_upper_def latin1_lower_cp_def latin1_upper_cp_def
      strasse_def)

lemma strasse_tokens:
  "re_split is_separator False [] [115, 116, 114, 97, 223, 101] = [[115, 116, 114, 97, 223, 101]]"
  "re_split is_separator False [] [115, 116, 114, 97, 115, 115, 101] =
     [[115, 116, 114, 97, 115, 115, 101]]"
  by (simp_all add: is_separator_def py_isspace_def)

lemma strasse_strip:
  "py_strip [115, 116, 114, 97, 223, 101] = [115, 116, 114, 97, 223, 101]"
  "py_strip [115, 116, 114, 97, 115, 115, 101] = [115, 116, 114, 97, 115, 115, 101]"
  by (simp_all add: py_strip_def py_isspace_def)

lemma strasse_token_keywords:
  "token_keywords [115, 116, 114, 97, 223, 101] =
     [[114, 97, 223], [97, 223], [97, 223, 101], [223, 101]]"
  "token_keywords [115, 116, 114, 97, 115, 115, 101] = [[115, 116, 114, 97, 115, 115, 101]]"
  by (simp_all add: token_keywords_def gram_def py_isascii_def stopwords_def upt_rec)

lemma strasse_keywords:
  "query_keywords [115, 116, 114, 97, 223, 101] =
     [[114, 97, 223], [97, 223], [97, 223, 101], [223, 101]]"
  "query_keywords [115, 116, 114, 97, 115, 115, 101] = [[115, 116, 114, 97, 115, 115, 101]]"
  by (simp_all only: query_keywords_def strasse_tokens)
    (simp_all add: strasse_strip strasse_token_keywords)

lemma strasse_contains:
  "py_contains [115::nat, 116, 114, 97, 223, 101] [114, 97, 223]"
  "py_contains [115::nat, 116, 114, 97, 223, 101] [97, 223]"
  "py_contains [115::nat, 116, 114, 97, 223, 101] [97, 223, 101]"
  "py_contains [115::nat, 116, 114, 97, 223, 101] [223, 101]"
  "\<not> py_contains [115::nat, 116, 114, 97, 223, 101] [115, 116, 114, 97, 115, 115, 101]"
  by (simp_all add: py_contains_def upt_rec)

theorem title_boost_case_counterexample:
  "calculate_title_boost latin1_lower strasse strasse = 2 \<and>
   calculate_title_boost latin1_lower (latin1_upper strasse) (latin1_lower strasse) = 1"
  by (simp add: calculate_title_boost_formula [where lower = latin1_lower, OF latin1_lower_Nil] strasse_lower
      strasse_upper_lower)
    (simp add: strasse_def strasse_keywords strasse_contains)

subsection \<open>The running example\<close>

lemma example_search:
  "search two_vector_store (Some [1, 0]) 3 = Inr [(''d0_chunk_0'', 1), (''d0_chunk_1'', 0)]"
  by (simp add: search_def two_vector_store_def normalize_unit faiss_search_def
      inner_product_def upt_rec)

lemma example_tokens: "re_split is_separator False [] [97] = [[97]]"
  by (simp add: is_separator_def py_isspace_def)

lemma example_strip: "py_strip [97] = [97]"
  by (simp add: py_strip_def py_isspace_def)

lemma example_token_keywords: "token_keywords [97] = []"
  by (simp add: token_keywords_def gram_def)

lemma example_keywords: "query_keywords [97] = []"
  by (simp only: query_keywords_def example_tokens)
    (simp add: example_strip example_token_keywords)

lemma example_title_boost: "calculate_title_boost latin1_lower [97] [97] = 1"
  by (simp add: calculate_title_boost_def latin1_lower_def latin1_lower_cp_def example_keywords)

lemma example_score_hits:
  "score_hits latin1_lower example_settings 0 (\<lambda>c. Some example_chunk_data) [97]
     [(''d0_chunk_0'', 1), (''d0_chunk_1'', 0)] = [example_local_result]"
  by (simp add: score_hits_def example_settings_def example_chunk_data_def
      calculate_time_decay_def example_title_boost example_local_result_def)

lemma example_embed_query_settings:
  "embed_query unit_server id (embedding_model example_settings)
     (embedding_batch_size example_settings) [97] fresh_embedder
     = (Inr (Some [1, 0]), warm_embedder)"
  by (simp add: example_settings_def example_embed_query warm_embedder_def)

lemma example_local_search:
  "local_search latin1_lower unit_server id (\<lambda>c. Some example_chunk_data) 0 example_settings
     two_vector_store [97] 1 fresh_embedder = (Inr [example_local_result], warm_embedder)"
  by (simp add: local_search_def example_embed_query_settings example_search
      example_score_hits sort_by_score_def)

lemma example_web_search:
  "web_search_async (\<lambda>q k. [example_web_item]) [97] 1 = [example_web_result]"
  by (simp add: web_search_async_def example_web_item_def dict_get_def example_web_result_def)

subsection \<open>Local search\<close>



subsection \<open>Web results in hybrid search\<close>

lemma web_search_async_fixed:
  "r \<in> set (web_search_async web query k) \<Longrightarrow> sr_score r = 0.5 \<and> sr_source r = ''web''"
  by (auto simp: web_search_async_def Let_def)

lemma score_hits_local: "r \<in> set (score_hits lower cfg now get_chunk query hits) \<Longrightarrow> sr_source r = ''local''"
  by (auto simp: score_hits_def Let_def split: option.splits if_splits)

lemma local_search_local:
  "local_search lower srv compute_hash get_chunk now cfg vs query top_k est = (Inr results, est') \<Longrightarrow>
   r \<in> set results \<Longrightarrow> sr_source r = ''local''"
  by (auto simp: local_search_def set_sort_by_score split: if_splits prod.splits sum.splits
      dest!: in_set_takeD score_hits_local)

text \<open>
  Claim C10. Every result of the web side has the score 0.5 and the source \<open>web\<close>,
  whatever the query and the items fetched. The list that hybrid search returns is a
  rearrangement of the local results followed by the web results, and it is in
  descending order of score. In it a web result has the score 0.5 and stands behind every
  local result whose score is above 0.5.
\<close>

theorem web_results_rank_below_strong_local:
  "(\<forall>r \<in> set (web_search_async web query network_k). sr_score r = 0.5 \<and> sr_source r = ''web'') \<and>
   (hybrid_search lower srv compute_hash get_chunk now cfg web vs query local_k network_k est
      = (Inr results, est') \<longrightarrow>
    (\<exists>local_results.
       (if local_k > 0
        then local_search lower srv compute_hash get_chunk now cfg vs query local_k est
        else (Inr [], est)) = (Inr local_results, est') \<and>
       mset results =
         mset (local_results @
               (if network_k > 0 then web_search_async web query network_k else []))) \<and>
    (\<forall>i j. i \<le> j \<and> j < length results \<longrightarrow>
       sr_score (results ! j) \<le> sr_score (results ! i)) \<and>
    (\<forall>i j. i < length results \<and> j < length results \<and>
       sr_source (results ! i) = ''web'' \<and> sr_source (results ! j) = ''local'' \<and>
       sr_score (results ! j) > 0.5 \<longrightarrow> sr_score (results ! i) = 0.5 \<and> j < i))"
proof (rule conjI)
  show "\<forall>r \<in> set (web_search_async web query network_k). sr_score r = 0.5 \<and> sr_source r = ''web''"
    using web_search_async_fixed by blast
next
  show "hybrid_search lower srv compute_hash get_chunk now cfg web vs query local_k network_k est
      = (Inr results, est') \<longrightarrow>
    (\<exists>local_results.
       (if local_k > 0
        then local_search lower srv compute_hash get_chunk now cfg vs query local_k est
        else (Inr [], est)) = (Inr local_results, est') \<and>
       mset results =
         mset (local_results @
               (if network_k > 0 then web_search_async web query network_k else []))) \<and>
    (\<forall>i j. i \<le> j \<and> j < length results \<longrightarrow>
       sr_score (results ! j) \<le> sr_score (results ! i)) \<and>
    (\<forall>i j. i < length results \<and> j < length results \<and>
       sr_source (results ! i) = ''web'' \<and> sr_source (results ! j) = ''local'' \<and>
       sr_score (results ! j) > 0.5 \<longrightarrow> sr_score (results ! i) = 0.5 \<and> j < i)"
  proof
    assume run: "hybrid_search lower srv compute_hash get_chunk now cfg web vs query local_k
        network_k est = (Inr results, est')"
    from run obtain loc where
      loc: "(if local_k > 0
              then local_search lower srv compute_hash get_chunk now cfg vs query local_k est
              else (Inr [], est)) = (Inr loc, est')"
      and res: "results = sort_by_score
          (loc @ (if network_k > 0 then web_search_async web query network_k else []))"
      by (auto simp: hybrid_search_def Let_def split: prod.splits sum.splits)
    let ?all = "loc @ (if network_k > 0 then web_search_async web query network_k else [])"
    have perm: "mset results = mset ?all"
      unfolding res by (simp add: sort_by_score_def)
    have desc: "sr_score (results ! j) \<le> sr_score (results ! i)"
      if "i \<le> j \<and> j < length results" for i j
    proof -
      from that have "i \<le> j" and "j < length ?all"
        by (simp_all add: res length_sort_by_score)
      then show ?thesis
        unfolding res by (rule sort_by_score_descending)
    qed
    have loc_local: "sr_source r = ''local''" if "r \<in> set loc" for r
      using loc that by (auto split: if_splits dest: local_search_local)
    have below: "sr_score (results ! i) = 0.5 \<and> j < i"
      if h: "i < length results \<and> j < length results \<and>
         sr_source (results ! i) = ''web'' \<and> sr_source (results ! j) = ''local'' \<and>
         sr_score (results ! j) > 0.5" for i j
    proof -
      have "results ! i \<in> set ?all"
        using h res by (metis nth_mem set_sort_by_score)
      with h loc_local have "results ! i \<in> set (web_search_async web query network_k)"
        by (auto split: if_splits)
      then have half: "sr_score (results ! i) = 0.5"
        by (simp add: web_search_async_fixed)
      have "j < i"
      proof (rule ccontr)
        assume "\<not> j < i"
        with h have "i \<le> j \<and> j < length results" by simp
        then have "sr_score (results ! j) \<le> sr_score (results ! i)"
          by (rule desc)
        with half h show False by simp
      qed
      with half show ?thesis by simp
    qed
    from loc perm have "\<exists>local_results.
       (if local_k > 0
        then local_search lower srv compute_hash get_chunk now cfg vs query local_k est
        else (Inr [], est)) = (Inr local_results, est') \<and>
       mset results =
         mset (local_results @
               (if network_k > 0 then web_search_async web query network_k else []))"
      by blast
    with desc below show "(\<exists>local_results.
       (if local_k > 0
        then local_search lower srv compute_hash get_chunk now cfg vs query local_k est
        else (Inr [], est)) = (Inr local_results, est') \<and>
       mset results =
         mset (local_results @
               (if network_k > 0 then web_search_async web query network_k else []))) \<and>
      (\<forall>i j. i \<le> j \<and> j < length results \<longrightarrow>
         sr_score (results ! j) \<le> sr_score (results ! i)) \<and>
      (\<forall>i j. i < length results \<and> j < length results \<and>
         sr_source (results ! i) = ''web'' \<and> sr_source (results ! j) = ''local'' \<and>
         sr_score (results ! j) > 0.5 \<longrightarrow> sr_score (results ! i) = 0.5 \<and> j < i)"
      by blast
  qed
qed

text \<open>
  Two local results of scores 1 and 0.48 and one web result: the list returned has the
  web result between them, which the local results followed by the web results do not.
\<close>

lemma aged_search:
  "search three_vector_store (Some [1, 0]) 6 =
     Inr [(''d0_chunk_0'', 1), (''d1_chunk_0'', 3 / 5), (''d2_chunk_0'', 0)]"
  by (simp add: search_def three_vector_store_def normalize_unit faiss_search_def
      inner_product_def upt_rec)

lemma aged_time_decay:
  "calculate_time_decay (time_decay example_settings) later (Some 0) = 0.8"
  "calculate_time_decay (time_decay example_settings) later None = 1"
  by (simp_all add: calculate_time_decay_def example_settings_def later_def days_def)

lemma aged_keywords: "query_keywords (latin1_lower [97]) = []"
  by (simp add: latin1_lower_def latin1_lower_cp_def example_keywords)

lemma aged_title_boost: "calculate_title_boost latin1_lower [97] t = 1"
  by (simp add: calculate_title_boost_def aged_keywords)

lemma aged_score_hits:
  "score_hits latin1_lower example_settings later aged_get_chunk [97]
     [(''d0_chunk_0'', 1), (''d1_chunk_0'', 3 / 5), (''d2_chunk_0'', 0)] =
   [example_local_result, aged_local_result]"
  by (simp add: score_hits_def aged_get_chunk_def aged_chunk_data_def example_chunk_data_def
      aged_time_decay aged_title_boost example_local_result_def aged_local_result_def)
    (simp add: example_settings_def)

lemma aged_local_search:
  "local_search latin1_lower unit_server id aged_get_chunk later example_settings
     three_vector_store [97] 2 fresh_embedder =
   (Inr [example_local_result, aged_local_result], warm_embedder)"
  by (simp add: local_search_def example_embed_query_settings aged_search aged_score_hits
      sort_by_score_def example_local_result_def aged_local_result_def)

lemma aged_merge:
  "sort_by_score [example_local_result, aged_local_result, example_web_result] =
     [example_local_result, example_web_result, aged_local_result]"
  by (simp add: sort_by_score_def example_local_result_def example_web_result_def
      aged_local_result_def)

lemma aged_hybrid_search:
  "hybrid_search latin1_lower unit_server id aged_get_chunk later example_settings
     (\<lambda>q k. [example_web_item]) three_vector_store [97] 2 1 fresh_embedder
     = (Inr [example_local_result, example_web_result, aged_local_result], warm_embedder)"
  by (simp add: hybrid_search_def aged_local_search example_web_search aged_merge)

theorem web_results_rank_below_strong_local_witness:
  "hybrid_search latin1_lower unit_server id aged_get_chunk later example_settings
     (\<lambda>q k. [example_web_item]) three_vector_store [97] 2 1 fresh_embedder
     = (Inr [example_local_result, example_web_result, aged_local_result], warm_embedder) \<and>
   sr_source ([example_local_result, example_web_result, aged_local_result] ! 1) = ''web'' \<and>
   sr_source ([example_local_result, example_web_result, aged_local_result] ! 0) = ''local'' \<and>
   sr_score ([example_local_result, example_web_result, aged_local_result] ! 0) > 0.5 \<and>
   sr_score ([example_local_result, example_web_result, aged_local_result] ! 1) = 0.5 \<and>
   (0::nat) < 1 \<and>
   sr_score ([example_local_result, example_web_result, aged_local_result] ! 2)
     \<le> sr_score ([example_local_result, example_web_result, aged_local_result] ! 1)"
proof -
  let ?results = "[example_local_result, example_web_result, aged_local_result]"
  note all = web_results_rank_below_strong_local [where web = "\<lambda>q k. [example_web_item]"
      and query = "[97]" and network_k = 1 and lower = latin1_lower and srv = unit_server
      and compute_hash = id and get_chunk = aged_get_chunk and now = later
      and cfg = example_settings and vs = three_vector_store and local_k = 2
      and est = fresh_embedder and results = ?results and est' = warm_embedder]
  note sorted = all [THEN conjunct2, THEN mp, OF aged_hybrid_search]
  have web: "sr_source (?results ! 1) = ''web''"
    and local: "sr_source (?results ! 0) = ''local''"
    and strong: "sr_score (?results ! 0) > 0.5"
    and len: "(1::nat) < length ?results" "(0::nat) < length ?results"
      "(1::nat) \<le> 2 \<and> 2 < length ?results"
    by (simp_all add: example_local_result_def example_web_result_def)
  from sorted [THEN conjunct2, THEN conjunct2] len web local strong
  have below: "sr_score (?results ! 1) = 0.5 \<and> (0::nat) < 1"
    by blast
  from sorted [THEN conjunct2, THEN conjunct1] len
  have order: "sr_score (?results ! 2) \<le> sr_score (?results ! 1)"
    by blast
  from below have half: "sr_score (?results ! 1) = 0.5" and pos: "(0::nat) < 1"
    by simp_all
  show ?thesis
    by (intro conjI) (fact aged_hybrid_search web local strong half pos order)+
qed

end
